theory Spec2Isabelle
  imports Complex_Main "HOL-Library.Sublist"
begin

section \<open>The notification dispatch pipeline of app.py\<close>

text \<open>
  The theory embeds the parts of \<^verbatim>\<open>src/app.py\<close> that load, filter, render and dispatch
  the recipient records: the handler \<^verbatim>\<open>start_messaging\<close> and the worker
  \<^verbatim>\<open>run_messaging_process\<close>. The global dictionary \<^verbatim>\<open>message_status\<close> is a
  record that the worker receives and returns; the calls that leave the process (files,
  the clock, pandas' date parser, the browser) are read from a record of their outcomes,
  and every exception of the source is a value.
\<close>

subsection \<open>Python strings\<close>

text \<open>
  \<^verbatim>\<open>str.replace(old, new)\<close>: the occurrences of \<open>old\<close> are found from the left and do
  not overlap; an empty \<open>old\<close> matches before every character and at the end.
\<close>

function py_replace :: "string \<Rightarrow> string \<Rightarrow> string \<Rightarrow> string" where
  "py_replace [] old new = (if old = [] then new else [])"
| "py_replace (c # cs) old new =
     (if old = [] then new @ c # py_replace cs old new
      else if prefix old (c # cs) then new @ py_replace (drop (length old) (c # cs)) old new
      else c # py_replace cs old new)"
  by pat_completeness auto
termination
  by (relation "measure (\<lambda>(s, old, new). length s)") auto

text \<open>
  \<^verbatim>\<open>str.isspace\<close> on one character, for the code points below 256: tab, line feed,
  vertical tab, form feed, carriage return, the four separators 28 to 31, the space,
  NEL (133) and the no-break space (160).
\<close>

definition py_isspace :: "char \<Rightarrow> bool" where
  "py_isspace c =
     (let n = (of_char c :: nat)
      in (9 \<le> n \<and> n \<le> 13) \<or> (28 \<le> n \<and> n \<le> 32) \<or> n = 133 \<or> n = 160)"

text \<open>\<^verbatim>\<open>str.strip()\<close> with no argument removes leading and trailing whitespace.\<close>

definition py_strip :: "string \<Rightarrow> string" where
  "py_strip s = rev (dropWhile py_isspace (rev (dropWhile py_isspace s)))"

text \<open>\<^verbatim>\<open>str.endswith\<close>.\<close>

definition endswith :: "string \<Rightarrow> string \<Rightarrow> bool" where
  "endswith s suf = suffix suf s"

text \<open>
  \<^verbatim>\<open>max(xs, key=k)\<close> on a non-empty list, started at its first element: a later element
  replaces the running maximum only when its key is strictly greater.
\<close>

fun py_max_key :: "('a \<Rightarrow> real) \<Rightarrow> 'a \<Rightarrow> 'a list \<Rightarrow> 'a" where
  "py_max_key key best [] = best"
| "py_max_key key best (x # xs) =
     (if key best < key x then py_max_key key x xs else py_max_key key best xs)"

subsection \<open>The data\<close>

text \<open>
  An exception carries the text that \<^verbatim>\<open>str(e)\<close> gives. Every exception the worker can
  meet is an instance of \<^verbatim>\<open>Exception\<close>.
\<close>

datatype exn = Exception string

text \<open>
  A date is its proleptic ordinal (\<^verbatim>\<open>date.toordinal()\<close>), so that adding
  \<^verbatim>\<open>timedelta(days=6)\<close> is adding 6.
\<close>

type_synonym date = int

text \<open>
  One row of the six columns the worker selects. The cells are strings; the type
  parameter is the cell of \<^verbatim>\<open>NextHearingDate\<close>: a string as read from the file, and a
  date or \<^verbatim>\<open>NaT\<close> (\<open>None\<close>) after line 255.
\<close>

record 'd row =
  Client :: string
  Contact :: string
  NextHearingDate :: 'd
  Category :: string
  TypRnRy :: string
  Parties :: string

text \<open>An entry of \<^verbatim>\<open>message_status['messages']\<close>.\<close>

record message_result =
  client :: string
  contact :: string
  status :: string

text \<open>The global \<^verbatim>\<open>message_status\<close> (lines 42 to 48).\<close>

record message_status =
  is_running :: bool
  current_step :: string
  progress :: int
  total :: int
  messages :: "message_result list"

definition initial_message_status :: message_status where
  "initial_message_status =
     \<lparr>is_running = False, current_step = [], progress = 0, total = 0, messages = []\<rparr>"

text \<open>The calls on the browser and the pauses, in the order the worker makes them.\<close>

datatype event =
    InitDriver
  | CheckSession
  | SendMessage string string string
  | Sleep nat
  | DriverQuit

text \<open>The state the worker changes: the global dictionary and the calls made so far.\<close>

record state =
  message_status :: message_status
  events :: "event list"

text \<open>
  What the world answers during one run. \<open>Some e\<close> and \<open>Inl e\<close> are the exception
  a call raises.
  \<^item> \<open>load_config\<close>: lines 233 to 242, reading \<^verbatim>\<open>config.json\<close>;
  \<^item> \<open>read_csv\<close>: \<^verbatim>\<open>pd.read_csv\<close>, the column of contacts and the selection of the
    six columns (lines 246, 247 and 254), by path;
  \<^item> \<open>now_date\<close>: \<^verbatim>\<open>datetime.now().date()\<close>;
  \<^item> \<open>to_datetime_raises\<close>: the exception that line 255 raises on the column of dates,
    if any (\<^verbatim>\<open>errors='coerce'\<close> turns an unreadable cell into \<^verbatim>\<open>NaT\<close>, but the accessor
    \<^verbatim>\<open>.dt\<close> raises when the parsed column is not a column of datetimes);
  \<^item> \<open>to_datetime\<close>: \<^verbatim>\<open>pd.to_datetime(..., errors='coerce').dt.date\<close> on one cell when
    the line does not raise, \<open>None\<close> for \<^verbatim>\<open>NaT\<close>;
  \<^item> \<open>date_str\<close>: \<^verbatim>\<open>str\<close> of a \<^verbatim>\<open>datetime.date\<close>;
  \<^item> \<open>read_template\<close>: \<^verbatim>\<open>open(file_path, 'r').read()\<close>, by path;
  \<^item> \<open>initialize_webdriver\<close>: \<^verbatim>\<open>initialize_webdriver_for_webapp\<close>, which re-raises;
  \<^item> \<open>check_session\<close>: \<^verbatim>\<open>check_session_webapp\<close>, which catches every exception;
  \<^item> \<open>send_message\<close>: \<^verbatim>\<open>send_whatsapp_message_webapp\<close>, which catches every
    exception, by the index of the call, the name, the contact and the message;
  \<^item> \<open>driver_quit\<close>: \<^verbatim>\<open>driver.quit()\<close>.
\<close>

record env =
  load_config :: "exn option"
  read_csv :: "string \<Rightarrow> exn + string row list"
  now_date :: date
  to_datetime_raises :: "string list \<Rightarrow> exn option"
  to_datetime :: "string \<Rightarrow> date option"
  date_str :: "date \<Rightarrow> string"
  read_template :: "string \<Rightarrow> exn + string"
  initialize_webdriver :: "exn option"
  check_session :: bool
  send_message :: "nat \<Rightarrow> string \<Rightarrow> string \<Rightarrow> string \<Rightarrow> bool"
  driver_quit :: "exn option"

subsection \<open>Loading and filtering (lines 246 to 260)\<close>

text \<open>Line 247: \<^verbatim>\<open>df['Contact'].str.replace(" ", "").str.strip()\<close> on one cell.\<close>

definition normalize_contact :: "string \<Rightarrow> string" where
  "normalize_contact c = py_strip (py_replace c '' '' [])"

definition load_contacts :: "string row list \<Rightarrow> string row list" where
  "load_contacts df = map (\<lambda>r. r\<lparr>Contact := normalize_contact (Contact r)\<rparr>) df"

text \<open>Line 251.\<close>

definition today :: "env \<Rightarrow> date" where
  "today e = now_date e + 6"

definition selected_categories :: "string list" where
  "selected_categories = [''Active'', ''NoClientsInstruction'']"

text \<open>Line 255, when it does not raise: the column of dates, parsed cell by cell.\<close>

definition parse_dates :: "env \<Rightarrow> string row list \<Rightarrow> date option row list" where
  "parse_dates e df =
     map (\<lambda>r. \<lparr>Client = Client r, Contact = Contact r,
               NextHearingDate = to_datetime e (NextHearingDate r),
               Category = Category r, TypRnRy = TypRnRy r, Parties = Parties r\<rparr>) df"

text \<open>Lines 257 and 258: two selections, one after the other.\<close>

definition filtered_clients :: "date option row list \<Rightarrow> date option row list" where
  "filtered_clients clients = filter (\<lambda>r. Category r \<in> set selected_categories) clients"

definition today_clients :: "date \<Rightarrow> date option row list \<Rightarrow> date option row list" where
  "today_clients ref clients =
     filter (\<lambda>r. NextHearingDate r = Some ref) (filtered_clients clients)"

text \<open>Lines 247 to 258 together: from the rows as read to the rows that are due.\<close>

definition due_clients :: "env \<Rightarrow> string row list \<Rightarrow> date option row list" where
  "due_clients e df0 = today_clients (today e) (parse_dates e (load_contacts df0))"

subsection \<open>Rendering (lines 290 to 297)\<close>

definition columns :: "string list" where
  "columns = [''Client'', ''Contact'', ''NextHearingDate'', ''Category'', ''TypRnRy'', ''Parties'']"

text \<open>\<^verbatim>\<open>str(row[col])\<close>; a column the row does not have is never asked for.\<close>

definition cell_str :: "env \<Rightarrow> date option row \<Rightarrow> string \<Rightarrow> string" where
  "cell_str e r col =
     (if col = ''Client'' then Client r
      else if col = ''Contact'' then Contact r
      else if col = ''NextHearingDate'' then
        (case NextHearingDate r of None \<Rightarrow> ''NaT'' | Some d \<Rightarrow> date_str e d)
      else if col = ''Category'' then Category r
      else if col = ''TypRnRy'' then TypRnRy r
      else if col = ''Parties'' then Parties r
      else [])"

text \<open>The loop of lines 295 to 297: one \<^verbatim>\<open>replace\<close> per column, in the order of the columns.\<close>

definition replace_placeholders :: "env \<Rightarrow> string \<Rightarrow> date option row \<Rightarrow> string" where
  "replace_placeholders e message_template r =
     foldl (\<lambda>message col.
              if col \<in> set columns
              then py_replace message (''{'' @ col @ ''}'') (cell_str e r col)
              else message)
       message_template columns"

subsection \<open>The worker (lines 223 to 317)\<close>

definition set_step :: "string \<Rightarrow> state \<Rightarrow> state" where
  "set_step step st = st\<lparr>message_status := (message_status st)\<lparr>current_step := step\<rparr>\<rparr>"

definition call :: "event \<Rightarrow> state \<Rightarrow> state" where
  "call ev st = st\<lparr>events := events st @ [ev]\<rparr>"

text \<open>Lines 226 to 229.\<close>

definition initialize :: "message_status \<Rightarrow> message_status" where
  "initialize s =
     s\<lparr>is_running := True, current_step := ''Initializing...'', progress := 0, messages := []\<rparr>"

text \<open>Lines 263 to 271: the two files are read in the order of the dictionary.\<close>

definition load_templates :: "env \<Rightarrow> exn + (string \<rightharpoonup> string)" where
  "load_templates e =
     (case read_template e ''templates/active_message.txt'' of
        Inl x \<Rightarrow> Inl x
      | Inr active \<Rightarrow>
          (case read_template e ''templates/no_instruction_message.txt'' of
             Inl x \<Rightarrow> Inl x
           | Inr no_instruction \<Rightarrow>
               Inr [''Active'' \<mapsto> active, ''NoClientsInstruction'' \<mapsto> no_instruction]))"

text \<open>Lines 291 to 297: the template of the row's category, or the empty string, rendered.\<close>

definition render_message :: "env \<Rightarrow> (string \<rightharpoonup> string) \<Rightarrow> date option row \<Rightarrow> string" where
  "render_message e templates r =
     (let message_template = (case templates (Category r) of None \<Rightarrow> [] | Some t \<Rightarrow> t)
      in replace_placeholders e message_template r)"

text \<open>The entry of lines 303 to 307.\<close>

definition result_entry :: "string \<Rightarrow> string \<Rightarrow> bool \<Rightarrow> message_result" where
  "result_entry name number success =
     \<lparr>client = name, contact = number,
      status = (if success then ''Success'' else ''Failed'')\<rparr>"

text \<open>
  One pass of the loop body, lines 286 to 309: the call, the write of \<open>progress\<close>, the
  append, the pause.
\<close>

definition send_one :: "env \<Rightarrow> (string \<rightharpoonup> string) \<Rightarrow> nat \<Rightarrow> date option row \<Rightarrow> state \<Rightarrow> state" where
  "send_one e templates index r st =
     (let name = Client r;
          contact = Contact r;
          message = render_message e templates r;
          success = send_message e index name contact message;
          st1 = call (SendMessage name contact message) st;
          s = message_status st1;
          s1 = s\<lparr>progress := int index + 1\<rparr>;
          s2 = s1\<lparr>messages := messages s1 @ [result_entry name contact success]\<rparr>
      in call (Sleep 5) (st1\<lparr>message_status := s2\<rparr>))"

text \<open>The loop of line 285, from the index of its next record.\<close>

fun send_all :: "env \<Rightarrow> (string \<rightharpoonup> string) \<Rightarrow> nat \<Rightarrow> date option row list \<Rightarrow> state \<Rightarrow> state" where
  "send_all e templates index [] st = st"
| "send_all e templates index (r # rs) st =
     send_all e templates (Suc index) rs (send_one e templates index r st)"

text \<open>
  What one pass of the loop leaves behind for the record \<open>r\<close> at index \<open>j\<close>: the entry
  appended to \<open>messages\<close>, and the calls made.
\<close>

definition entry_of :: "env \<Rightarrow> (string \<rightharpoonup> string) \<Rightarrow> nat \<times> date option row \<Rightarrow> message_result" where
  "entry_of e templates jr =
     (case jr of (j, r) \<Rightarrow>
        result_entry (Client r) (Contact r)
          (send_message e j (Client r) (Contact r) (render_message e templates r)))"

definition calls_of :: "env \<Rightarrow> (string \<rightharpoonup> string) \<Rightarrow> date option row \<Rightarrow> event list" where
  "calls_of e templates r =
     [SendMessage (Client r) (Contact r) (render_message e templates r), Sleep 5]"

text \<open>The two writes that end a run normally (lines 278 and 279, lines 312 and 313).\<close>

definition finish :: "string \<Rightarrow> state \<Rightarrow> state" where
  "finish step st =
     st\<lparr>message_status := (message_status st)\<lparr>current_step := step, is_running := False\<rparr>\<rparr>"

text \<open>
  The body of the \<^verbatim>\<open>try\<close>, in three parts; each gives the exception that leaves it,
  if any, and the state at that moment. Lines 283 to 313, from the opened session:
\<close>

definition send_messages ::
  "env \<Rightarrow> (string \<rightharpoonup> string) \<Rightarrow> date option row list \<Rightarrow> state \<Rightarrow> exn option \<times> state" where
  "send_messages e templates due st =
     (let st1 = send_all e templates 0 due (set_step ''Sending messages...'' st);
          st2 = call DriverQuit st1
      in case driver_quit e of
           Some x \<Rightarrow> (Some x, st2)
         | None \<Rightarrow> (None, finish ''Completed'' st2))"

text \<open>Lines 274 to 280, then the sending:\<close>

definition open_session ::
  "env \<Rightarrow> (string \<rightharpoonup> string) \<Rightarrow> date option row list \<Rightarrow> state \<Rightarrow> exn option \<times> state" where
  "open_session e templates due st =
     (let st1 = call InitDriver (set_step ''Initializing browser...'' st)
      in case initialize_webdriver e of
           Some x \<Rightarrow> (Some x, st1)
         | None \<Rightarrow>
             (let st2 = call CheckSession st1
              in if \<not> check_session e then (None, finish ''Session check failed'' st2)
                 else send_messages e templates due st2))"

text \<open>Lines 245 to 271, from the loaded configuration, then the session:\<close>

definition process_csv :: "env \<Rightarrow> string \<Rightarrow> state \<Rightarrow> exn option \<times> state" where
  "process_csv e csv_path st =
     (let st1 = set_step ''Processing CSV file...'' st
      in case read_csv e csv_path of
           Inl x \<Rightarrow> (Some x, st1)
         | Inr df0 \<Rightarrow>
             (let st2 = set_step ''Filtering clients...'' st1
              in case to_datetime_raises e (map NextHearingDate df0) of
                   Some x \<Rightarrow> (Some x, st2)
                 | None \<Rightarrow>
                     (let due = due_clients e df0;
                          st3 = st2\<lparr>message_status :=
                                      (message_status st2)\<lparr>total := int (length due)\<rparr>\<rparr>
                      in case load_templates e of
                           Inl x \<Rightarrow> (Some x, st3)
                         | Inr templates \<Rightarrow> open_session e templates due st3)))"

text \<open>Lines 232 to 313, from the state that lines 226 to 229 leave:\<close>

definition try_body :: "env \<Rightarrow> string \<Rightarrow> state \<Rightarrow> exn option \<times> state" where
  "try_body e csv_path st =
     (case load_config e of
        Some x \<Rightarrow> (Some x, st)
      | None \<Rightarrow> process_csv e csv_path st)"

text \<open>Lines 315 to 317: the handler of the \<^verbatim>\<open>try\<close>.\<close>

definition handle_exception :: "exn \<Rightarrow> state \<Rightarrow> state" where
  "handle_exception x st =
     (case x of Exception msg \<Rightarrow>
        st\<lparr>message_status :=
             (message_status st)\<lparr>current_step := ''Error: '' @ msg, is_running := False\<rparr>\<rparr>)"

text \<open>
  The whole worker: the exception that leaves it (the thread's target), and the state it
  leaves.
\<close>

definition run_messaging_process :: "env \<Rightarrow> string \<Rightarrow> state \<Rightarrow> exn option \<times> state" where
  "run_messaging_process e csv_path st =
     (case try_body e csv_path (st\<lparr>message_status := initialize (message_status st)\<rparr>) of
        (None, st') \<Rightarrow> (None, st')
      | (Some x, st') \<Rightarrow> (None, handle_exception x st'))"

subsection \<open>The start request (lines 193 to 213)\<close>

datatype response = Response (json_key: string) (json_text: string) (http_code: nat)

text \<open>
  The handler reads \<^verbatim>\<open>message_status\<close> and never writes it. Its result is the answer
  and, when a thread is started, the argument of its target. \<open>listdir\<close> is
  \<^verbatim>\<open>os.listdir('uploads')\<close> and \<open>getctime\<close> is \<^verbatim>\<open>os.path.getctime\<close>.
\<close>

definition start_messaging ::
  "message_status \<Rightarrow> string list \<Rightarrow> (string \<Rightarrow> real) \<Rightarrow> response \<times> string option" where
  "start_messaging s listdir getctime =
     (if is_running s then
        (Response ''error'' ''Messaging is already in progress'' 400, None)
      else
        let upload_files = filter (\<lambda>f. endswith f ''.csv'') listdir in
        if upload_files = [] then
          (Response ''error'' ''Please upload a CSV file first'' 400, None)
        else
          let csv_path = ''uploads/'' @
                py_max_key (\<lambda>f. getctime (''uploads/'' @ f)) (hd upload_files) (tl upload_files)
          in (Response ''success'' ''Messaging process started'' 200, Some csv_path))"

text \<open>
  The process between two steps of its threads: the global dictionary, and the worker
  threads that \<^verbatim>\<open>thread.start()\<close> has started and that have not yet run line 226, each
  with its argument.
\<close>

record process =
  shared_status :: message_status
  started_workers :: "string list"

text \<open>A start request, handled to its end without any other thread running in between.\<close>

definition post_start_messaging ::
  "string list \<Rightarrow> (string \<Rightarrow> real) \<Rightarrow> process \<Rightarrow> response \<times> process" where
  "post_start_messaging listdir getctime p =
     (case start_messaging (shared_status p) listdir getctime of
        (resp, None) \<Rightarrow> (resp, p)
      | (resp, Some csv_path) \<Rightarrow>
          (resp, p\<lparr>started_workers := started_workers p @ [csv_path]\<rparr>))"

subsection \<open>Templates as pieces\<close>

text \<open>
  A template written as literal text and placeholders: \<open>template_text\<close> is the string
  the worker reads, and \<open>substitute\<close> is what the specification asks of the renderer
  for one piece (the value of a known field, an unknown placeholder as it stands).
\<close>

datatype piece = Literal string | Placeholder string

fun piece_text :: "piece \<Rightarrow> string" where
  "piece_text (Literal s) = s"
| "piece_text (Placeholder n) = ''{'' @ n @ ''}''"

definition template_text :: "piece list \<Rightarrow> string" where
  "template_text ps = concat (map piece_text ps)"

text \<open>
  A piece is well formed when its literal text has no opening brace and its placeholder
  name has no brace at all, so that the pieces of a template can be read off its text.
\<close>

fun well_formed :: "piece \<Rightarrow> bool" where
  "well_formed (Literal s) = (CHR ''{'' \<notin> set s)"
| "well_formed (Placeholder n) = (CHR ''{'' \<notin> set n \<and> CHR ''}'' \<notin> set n)"

fun substitute :: "env \<Rightarrow> date option row \<Rightarrow> piece \<Rightarrow> string" where
  "substitute e r (Literal s) = s"
| "substitute e r (Placeholder n) =
     (if n \<in> set columns then cell_str e r n else ''{'' @ n @ ''}'')"

text \<open>The effect of one \<^verbatim>\<open>replace\<close> on a piece.\<close>

fun fill :: "string \<Rightarrow> string \<Rightarrow> piece \<Rightarrow> piece" where
  "fill n v (Literal s) = Literal s"
| "fill n v (Placeholder m) = (if m = n then Literal v else Placeholder m)"

subsection \<open>Example runs\<close>

text \<open>
  Four records: A is active and due, B is active and due a day later, C waits for
  instructions and is due, D is active and its date cannot be read. The first message is
  sent, the second is not.
\<close>

definition example_rows :: "string row list" where
  "example_rows =
     [\<lparr>Client = ''A'', Contact = ''+91 98765 43210'', NextHearingDate = ''2026-11-10'',
       Category = ''Active'', TypRnRy = ''T1'', Parties = ''A vs X''\<rparr>,
      \<lparr>Client = ''B'', Contact = ''+91 11111 22222'', NextHearingDate = ''2026-11-11'',
       Category = ''Active'', TypRnRy = ''T2'', Parties = ''B vs Y''\<rparr>,
      \<lparr>Client = ''C'', Contact = ''+91 33333 44444'', NextHearingDate = ''2026-11-10'',
       Category = ''NoClientsInstruction'', TypRnRy = ''T3'', Parties = ''C vs Z''\<rparr>,
      \<lparr>Client = ''D'', Contact = ''+91 55555 66666'', NextHearingDate = ''soon'',
       Category = ''Active'', TypRnRy = ''T4'', Parties = ''D vs W''\<rparr>]"

definition example_env :: env where
  "example_env =
     \<lparr>load_config = None,
      read_csv = (\<lambda>p. Inr example_rows),
      now_date = 739924,
      to_datetime_raises = (\<lambda>column. None),
      to_datetime = (\<lambda>s. if s = ''2026-11-10'' then Some 739930
                         else if s = ''2026-11-11'' then Some 739931 else None),
      date_str = (\<lambda>d. if d = 739930 then ''2026-11-10'' else ''2026-11-11''),
      read_template = (\<lambda>p. if p = ''templates/active_message.txt''
                            then Inr ''Dear {Client}, hearing on {NextHearingDate}.''
                            else Inr ''Dear {Client}, instruct us on {Parties} {Ref}.''),
      initialize_webdriver = None,
      check_session = True,
      send_message = (\<lambda>i n c m. i = 0),
      driver_quit = None\<rparr>"

text \<open>The state a previous run of five messages has left.\<close>

definition previous_status :: message_status where
  "previous_status =
     \<lparr>is_running = False, current_step = ''Completed'', progress = 5, total = 5,
      messages = replicate 5 (result_entry ''Z'' ''+910000000000'' True)\<rparr>"

definition example_state :: state where
  "example_state = \<lparr>message_status = previous_status, events = []\<rparr>"

definition example_templates :: "string \<rightharpoonup> string" where
  "example_templates =
     [''Active'' \<mapsto> ''Dear {Client}, hearing on {NextHearingDate}.'',
      ''NoClientsInstruction'' \<mapsto> ''Dear {Client}, instruct us on {Parties} {Ref}.'']"

text \<open>The uploads directory, and a process with a run in progress and one without.\<close>

definition example_listdir :: "string list" where
  "example_listdir = [''a.csv'', ''notes.txt'', ''b.csv'']"

definition example_getctime :: "string \<Rightarrow> real" where
  "example_getctime f = (if f = ''uploads/b.csv'' then 2 else 1)"

definition running_process :: process where
  "running_process =
     \<lparr>shared_status = previous_status\<lparr>is_running := True, current_step := ''Sending messages...''\<rparr>,
      started_workers = []\<rparr>"

definition idle_process :: process where
  "idle_process = \<lparr>shared_status = initial_message_status, started_workers = []\<rparr>"

text \<open>The same world with no session, and with a browser that fails to close.\<close>

definition offline_env :: env where
  "offline_env = example_env\<lparr>check_session := False\<rparr>"

definition quit_fails_env :: env where
  "quit_fails_env = example_env\<lparr>driver_quit := Some (Exception ''gone'')\<rparr>"

text \<open>
  The same world where the configuration, the recipient file, the first or the second
  template or the browser cannot be had, and where line 255 raises on the column of dates.
\<close>

definition config_fails_env :: env where
  "config_fails_env = example_env\<lparr>load_config := Some (Exception ''bad json'')\<rparr>"

definition csv_fails_env :: env where
  "csv_fails_env = example_env\<lparr>read_csv := (\<lambda>p. Inl (Exception ''no file''))\<rparr>"

definition template_fails_env :: env where
  "template_fails_env =
     example_env\<lparr>read_template := (\<lambda>p. Inl (Exception ''no template''))\<rparr>"

definition second_template_fails_env :: env where
  "second_template_fails_env =
     example_env\<lparr>read_template :=
       (\<lambda>p. if p = ''templates/active_message.txt'' then Inr ''Dear {Client}''
            else Inl (Exception ''no second template''))\<rparr>"

definition driver_fails_env :: env where
  "driver_fails_env = example_env\<lparr>initialize_webdriver := Some (Exception ''no chrome'')\<rparr>"

definition parse_fails_env :: env where
  "parse_fails_env =
     example_env\<lparr>to_datetime_raises := (\<lambda>column. Some (Exception ''no .dt accessor''))\<rparr>"

text \<open>
  Rows after line 255: one whose client's name is itself a placeholder, the row of D
  with its unread date, and the row of C; the template of C, in pieces; a contact with a
  tab between its digits.
\<close>

definition nested_row :: "date option row" where
  "nested_row =
     \<lparr>Client = ''{Contact}'', Contact = ''+911'', NextHearingDate = None,
      Category = ''Active'', TypRnRy = ''t'', Parties = ''P''\<rparr>"

definition unread_row :: "date option row" where
  "unread_row =
     \<lparr>Client = ''D'', Contact = ''+915555566666'', NextHearingDate = None,
      Category = ''Active'', TypRnRy = ''T4'', Parties = ''D vs W''\<rparr>"

definition waiting_row :: "date option row" where
  "waiting_row =
     \<lparr>Client = ''C'', Contact = ''+913333344444'', NextHearingDate = Some 739930,
      Category = ''NoClientsInstruction'', TypRnRy = ''T3'', Parties = ''C vs Z''\<rparr>"

definition example_pieces :: "piece list" where
  "example_pieces =
     [Literal ''Dear '', Placeholder ''Client'', Literal '', instruct us on '',
      Placeholder ''Parties'', Literal '' '', Placeholder ''Ref'', Literal ''.'']"

definition tab_contact :: string where
  "tab_contact = [CHR ''1'', CHR 0x09, CHR ''2'']"

text \<open>
  Two workers on the same \<^verbatim>\<open>message_status\<close>, both started by the handler before either
  had set \<open>is_running\<close>. Each has run lines 226 to 283 and stands before its loop, with
  its own index and its own copy of the two due records; \<open>two_workers_start\<close> is the
  state then. They take turns pass by pass: the first worker's pass for A, the second
  worker's pass for A, then the same for C.
\<close>

definition first_row :: "date option row" where
  "first_row =
     \<lparr>Client = ''A'', Contact = ''+919876543210'', NextHearingDate = Some 739930,
      Category = ''Active'', TypRnRy = ''T1'', Parties = ''A vs X''\<rparr>"

definition two_workers_start :: state where
  "two_workers_start =
     \<lparr>message_status =
        \<lparr>is_running = True, current_step = ''Sending messages...'', progress = 0, total = 2,
         messages = []\<rparr>,
      events = [InitDriver, InitDriver, CheckSession, CheckSession]\<rparr>"

definition two_workers_end :: state where
  "two_workers_end =
     send_one example_env example_templates 1 waiting_row
       (send_one example_env example_templates 1 waiting_row
         (send_one example_env example_templates 0 first_row
           (send_one example_env example_templates 0 first_row two_workers_start)))"

section \<open>Properties\<close>

subsection \<open>Python strings and templates\<close>

lemma py_replace_char: "py_replace s [x] [] = filter (\<lambda>c. c \<noteq> x) s"
  by (induction s) auto

lemma replace_literal:
  "CHR ''{'' \<notin> set s \<Longrightarrow>
   py_replace (s @ t) (CHR ''{'' # n) v = s @ py_replace t (CHR ''{'' # n) v"
  by (induction s) auto

lemma prefix_closing:
  "b \<notin> set n \<Longrightarrow> b \<notin> set m \<Longrightarrow> prefix (n @ [b]) (m @ b # t) \<Longrightarrow> n = m"
proof (induction n arbitrary: m)
  case Nil
  then show ?case by (cases m) auto
next
  case (Cons a n)
  then show ?case by (cases m) auto
qed

lemma replace_same:
  "py_replace (CHR ''{'' # n @ CHR ''}'' # t) (CHR ''{'' # n @ ''}'') v =
     v @ py_replace t (CHR ''{'' # n @ ''}'') v"
  by simp

lemma replace_other:
  assumes "m \<noteq> n" and "CHR ''}'' \<notin> set n" and "CHR ''}'' \<notin> set m" and "CHR ''{'' \<notin> set m"
  shows "py_replace (CHR ''{'' # m @ CHR ''}'' # t) (CHR ''{'' # n @ ''}'') v =
     CHR ''{'' # m @ CHR ''}'' # py_replace t (CHR ''{'' # n @ ''}'') v"
proof -
  have "\<not> prefix (n @ ''}'') (m @ CHR ''}'' # t)"
    using assms prefix_closing [of "CHR ''}''" n m t] by auto
  moreover have "py_replace ((m @ ''}'') @ t) (CHR ''{'' # n @ ''}'') v =
      (m @ ''}'') @ py_replace t (CHR ''{'' # n @ ''}'') v"
    using assms by (intro replace_literal) simp
  ultimately show ?thesis by simp
qed

lemma replace_pieces:
  assumes "list_all well_formed ps" and "CHR ''{'' \<notin> set n" and "CHR ''}'' \<notin> set n"
  shows "py_replace (template_text ps) (''{'' @ n @ ''}'') v = template_text (map (fill n v) ps)"
  using assms(1)
proof (induction ps)
  case Nil
  then show ?case by (simp add: template_text_def)
next
  case (Cons p ps)
  then have IH: "py_replace (template_text ps) (''{'' @ n @ ''}'') v = template_text (map (fill n v) ps)"
    by simp
  show ?case
  proof (cases p)
    case (Literal s)
    with Cons.prems have "CHR ''{'' \<notin> set s" by simp
    then show ?thesis
      using IH Literal replace_literal [of s "template_text ps" "n @ ''}''" v]
      by (simp add: template_text_def)
  next
    case (Placeholder m)
    with Cons.prems have m: "CHR ''{'' \<notin> set m" "CHR ''}'' \<notin> set m" by simp_all
    show ?thesis
    proof (cases "m = n")
      case True
      then show ?thesis
        using IH Placeholder replace_same [of n "template_text ps" v]
        by (simp add: template_text_def)
    next
      case False
      then show ?thesis
        using IH Placeholder m assms(3) replace_other [of m n "template_text ps" v]
        by (simp add: template_text_def)
    qed
  qed
qed

lemma well_formed_fill:
  "CHR ''{'' \<notin> set v \<Longrightarrow> well_formed p \<Longrightarrow> well_formed (fill n v p)"
  by (cases p) auto

lemma list_all_fill:
  "CHR ''{'' \<notin> set v \<Longrightarrow> list_all well_formed ps \<Longrightarrow> list_all well_formed (map (fill n v) ps)"
  by (induction ps) (auto simp: well_formed_fill)

text \<open>the loop over an arbitrary list of column names\<close>

lemma replace_columns:
  assumes "\<forall>col \<in> set cols. CHR ''{'' \<notin> set col \<and> CHR ''}'' \<notin> set col \<and> CHR ''{'' \<notin> set (val col)"
    and "list_all well_formed ps"
  shows "foldl (\<lambda>message col. py_replace message (''{'' @ col @ ''}'') (val col)) (template_text ps) cols
       = template_text (foldl (\<lambda>qs col. map (fill col (val col)) qs) ps cols)"
  using assms
proof (induction cols arbitrary: ps)
  case Nil
  then show ?case by simp
next
  case (Cons col cols)
  then have "py_replace (template_text ps) (''{'' @ col @ ''}'') (val col) = template_text (map (fill col (val col)) ps)"
    by (intro replace_pieces) simp_all
  moreover have "list_all well_formed (map (fill col (val col)) ps)"
    using Cons.prems by (intro list_all_fill) simp_all
  ultimately show ?case using Cons.IH [of "map (fill col (val col)) ps"] Cons.prems(1) by simp
qed

lemma fill_literal: "foldl (\<lambda>q col. fill col (val col) q) (Literal s) cols = Literal s"
  by (induction cols) simp_all

lemma fill_placeholder:
  "foldl (\<lambda>q col. fill col (val col) q) (Placeholder m) cols =
     (if m \<in> set cols then Literal (val m) else Placeholder m)"
  by (induction cols) (auto simp: fill_literal)

lemma fill_all:
  "foldl (\<lambda>qs col. map (fill col (val col)) qs) ps cols =
     map (\<lambda>p. foldl (\<lambda>q col. fill col (val col) q) p cols) ps"
  by (induction cols arbitrary: ps) simp_all

lemma filled_text:
  "piece_text (foldl (\<lambda>q col. fill col (cell_str e r col) q) p columns) = substitute e r p"
  by (cases p) (simp_all add: fill_literal fill_placeholder)

lemma columns_no_brace: "\<forall>col \<in> set columns. CHR ''{'' \<notin> set col \<and> CHR ''}'' \<notin> set col"
  by (simp add: columns_def)

lemma replace_placeholders_loop:
  "replace_placeholders e t r =
     foldl (\<lambda>message col. py_replace message (''{'' @ col @ ''}'') (cell_str e r col)) t columns"
  unfolding replace_placeholders_def
  by (rule foldl_cong) simp_all

subsection \<open>The state after each statement\<close>

lemma status_call: "message_status (call ev st) = message_status st"
  by (simp add: call_def)

lemma events_call: "events (call ev st) = events st @ [ev]"
  by (simp add: call_def)

lemma status_set_step:
  "message_status (set_step step st) = (message_status st)\<lparr>current_step := step\<rparr>"
  by (simp add: set_step_def)

lemma events_set_step: "events (set_step step st) = events st"
  by (simp add: set_step_def)

lemma status_finish:
  "message_status (finish step st) =
     (message_status st)\<lparr>current_step := step, is_running := False\<rparr>"
  by (simp add: finish_def)

lemma events_finish: "events (finish step st) = events st"
  by (simp add: finish_def)

lemma status_handle_exception:
  "message_status (handle_exception (Exception msg) st) =
     (message_status st)\<lparr>current_step := ''Error: '' @ msg, is_running := False\<rparr>"
  by (simp add: handle_exception_def)

lemma events_handle_exception: "events (handle_exception x st) = events st"
  by (cases x) (simp add: handle_exception_def)

lemmas state_simps = status_call events_call status_set_step events_set_step status_finish
  events_finish status_handle_exception events_handle_exception

lemma handle_exception_fields:
  "messages (message_status (handle_exception x st)) = messages (message_status st)"
  "progress (message_status (handle_exception x st)) = progress (message_status st)"
  "total (message_status (handle_exception x st)) = total (message_status st)"
  "is_running (message_status (handle_exception x st)) = False"
  by (cases x; simp add: handle_exception_def)+

subsection \<open>The sending loop\<close>

lemma send_one_messages:
  "messages (message_status (send_one e t i r st)) =
     messages (message_status st) @ [entry_of e t (i, r)]"
  by (simp add: send_one_def entry_of_def Let_def state_simps)

lemma send_one_progress: "progress (message_status (send_one e t i r st)) = int i + 1"
  by (simp add: send_one_def Let_def state_simps)

lemma send_one_events: "events (send_one e t i r st) = events st @ calls_of e t r"
  by (simp add: send_one_def calls_of_def Let_def state_simps call_def)

lemma send_one_frame:
  "is_running (message_status (send_one e t i r st)) = is_running (message_status st)"
  "current_step (message_status (send_one e t i r st)) = current_step (message_status st)"
  "total (message_status (send_one e t i r st)) = total (message_status st)"
  by (simp_all add: send_one_def Let_def state_simps)

lemma send_all_messages:
  "messages (message_status (send_all e t i rs st)) =
     messages (message_status st) @ map (entry_of e t) (enumerate i rs)"
  by (induction rs arbitrary: i st) (simp_all add: send_one_messages)

lemma send_all_progress:
  "progress (message_status (send_all e t i rs st)) =
     (if rs = [] then progress (message_status st) else int i + int (length rs))"
  by (induction rs arbitrary: i st) (simp_all add: send_one_progress)

lemma send_all_events:
  "events (send_all e t i rs st) = events st @ concat (map (calls_of e t) rs)"
  by (induction rs arbitrary: i st) (simp_all add: send_one_events)

lemma send_all_frame:
  "is_running (message_status (send_all e t i rs st)) = is_running (message_status st)"
  "current_step (message_status (send_all e t i rs st)) = current_step (message_status st)"
  "total (message_status (send_all e t i rs st)) = total (message_status st)"
  by (induction rs arbitrary: i st) (simp_all add: send_one_frame)

lemma send_all_append:
  "send_all e t i (xs @ ys) st = send_all e t (i + length xs) ys (send_all e t i xs st)"
  by (induction xs arbitrary: i st) simp_all

lemma entry_of_fields:
  "client (entry_of e t (j, r)) = Client r"
  "contact (entry_of e t (j, r)) = Contact r"
  "(status (entry_of e t (j, r)) = ''Success'') =
     send_message e j (Client r) (Contact r) (render_message e t r)"
  "(status (entry_of e t (j, r)) = ''Failed'') =
     (\<not> send_message e j (Client r) (Contact r) (render_message e t r))"
  by (simp_all add: entry_of_def result_entry_def)

lemmas send_all_simps = send_all_messages send_all_progress send_all_events send_all_frame

lemmas run_defs = run_messaging_process_def try_body_def process_csv_def open_session_def
  send_messages_def initialize_def

subsection \<open>The selection\<close>

lemma today_clients_filter:
  "today_clients ref clients =
     filter (\<lambda>r. (Category r = ''Active'' \<or> Category r = ''NoClientsInstruction'')
                  \<and> NextHearingDate r = Some ref) clients"
  by (simp add: today_clients_def filtered_clients_def selected_categories_def conj_commute)

lemma due_clients_source:
  "due_clients e df0 =
     parse_dates e (load_contacts
       (filter (\<lambda>r. (Category r = ''Active'' \<or> Category r = ''NoClientsInstruction'')
                    \<and> to_datetime e (NextHearingDate r) = Some (now_date e + 6)) df0))"
  by (simp add: due_clients_def today_clients_filter today_def parse_dates_def
      load_contacts_def filter_map comp_def)

subsection \<open>The two ends of a run that reaches the session check\<close>

text \<open>The run that reaches the session check and passes it.\<close>

lemma run_sending:
  assumes "load_config e = None" and "read_csv e p = Inr df0"
    and "to_datetime_raises e (map NextHearingDate df0) = None"
    and "load_templates e = Inr t" and "initialize_webdriver e = None" and "check_session e"
  shows "messages (message_status (snd (run_messaging_process e p st))) =
           map (entry_of e t) (enumerate 0 (due_clients e df0))"
    and "progress (message_status (snd (run_messaging_process e p st))) =
           int (length (due_clients e df0))"
    and "total (message_status (snd (run_messaging_process e p st))) =
           int (length (due_clients e df0))"
    and "\<not> is_running (message_status (snd (run_messaging_process e p st)))"
    and "events (snd (run_messaging_process e p st)) =
           events st @ [InitDriver, CheckSession] @
           concat (map (calls_of e t) (due_clients e df0)) @ [DriverQuit]"
    and "driver_quit e = None \<Longrightarrow>
           current_step (message_status (snd (run_messaging_process e p st))) = ''Completed''"
  using assms
  by (cases "driver_quit e";
      simp add: run_defs Let_def state_simps send_all_simps handle_exception_fields
        events_handle_exception)+

text \<open>The run that reaches the session check and fails it.\<close>

lemma run_session_failed:
  assumes "load_config e = None" and "read_csv e p = Inr df0"
    and "to_datetime_raises e (map NextHearingDate df0) = None"
    and "load_templates e = Inr t" and "initialize_webdriver e = None" and "\<not> check_session e"
  shows "run_messaging_process e p st =
    (None, \<lparr>message_status =
       \<lparr>is_running = False, current_step = ''Session check failed'', progress = 0,
        total = int (length (due_clients e df0)), messages = []\<rparr>,
      events = events st @ [InitDriver, CheckSession]\<rparr>)"
  using assms by (simp add: run_defs Let_def state_simps finish_def set_step_def call_def)

lemma run_progress:
  "progress (message_status (snd (run_messaging_process e p st))) =
   int (length (messages (message_status (snd (run_messaging_process e p st)))))"
  by (simp add: run_defs Let_def state_simps send_all_simps handle_exception_fields
      split: option.splits sum.splits)

lemma send_all_counts:
  assumes "progress (message_status st) = int (length (messages (message_status st)))"
    and "i = length (messages (message_status st))"
  shows "progress (message_status (send_all e t i rs st)) =
     int (length (messages (message_status (send_all e t i rs st))))"
  using assms by (simp add: send_all_simps)

lemma run_total:
  assumes "load_config e = None" and "read_csv e p = Inr df0"
    and "to_datetime_raises e (map NextHearingDate df0) = None"
  shows "total (message_status (snd (run_messaging_process e p st))) = int (length (due_clients e df0))"
  using assms
  by (simp add: run_defs Let_def state_simps send_all_simps handle_exception_fields
      split: option.splits sum.splits)

text \<open>The run that ends in the handler, by the place of the exception.\<close>

lemma run_config_raises:
  assumes "load_config e = Some (Exception msg)"
  shows "run_messaging_process e p st =
    (None, \<lparr>message_status =
       \<lparr>is_running = False, current_step = ''Error: '' @ msg, progress = 0,
        total = total (message_status st), messages = []\<rparr>,
      events = events st\<rparr>)"
  using assms by (simp add: run_defs handle_exception_def)

lemma run_csv_raises:
  assumes "load_config e = None" and "read_csv e p = Inl (Exception msg)"
  shows "run_messaging_process e p st =
    (None, \<lparr>message_status =
       \<lparr>is_running = False, current_step = ''Error: '' @ msg, progress = 0,
        total = total (message_status st), messages = []\<rparr>,
      events = events st\<rparr>)"
  using assms by (simp add: run_defs Let_def handle_exception_def set_step_def)

lemma run_dates_raise:
  assumes "load_config e = None" and "read_csv e p = Inr df0"
    and "to_datetime_raises e (map NextHearingDate df0) = Some (Exception msg)"
  shows "run_messaging_process e p st =
    (None, \<lparr>message_status =
       \<lparr>is_running = False, current_step = ''Error: '' @ msg, progress = 0,
        total = total (message_status st), messages = []\<rparr>,
      events = events st\<rparr>)"
  using assms by (simp add: run_defs Let_def handle_exception_def set_step_def)

lemma load_templates_raises:
  "read_template e ''templates/active_message.txt'' = Inl x \<Longrightarrow> load_templates e = Inl x"
  "read_template e ''templates/active_message.txt'' = Inr active \<Longrightarrow>
   read_template e ''templates/no_instruction_message.txt'' = Inl x \<Longrightarrow>
   load_templates e = Inl x"
  by (simp_all add: load_templates_def)

lemma run_template_raises:
  assumes "load_config e = None" and "read_csv e p = Inr df0"
    and "to_datetime_raises e (map NextHearingDate df0) = None"
    and "load_templates e = Inl (Exception msg)"
  shows "run_messaging_process e p st =
    (None, \<lparr>message_status =
       \<lparr>is_running = False, current_step = ''Error: '' @ msg, progress = 0,
        total = int (length (due_clients e df0)), messages = []\<rparr>,
      events = events st\<rparr>)"
  using assms by (simp add: run_defs Let_def handle_exception_def set_step_def)

lemma run_driver_raises:
  assumes "load_config e = None" and "read_csv e p = Inr df0"
    and "to_datetime_raises e (map NextHearingDate df0) = None"
    and "load_templates e = Inr t" and "initialize_webdriver e = Some (Exception msg)"
  shows "run_messaging_process e p st =
    (None, \<lparr>message_status =
       \<lparr>is_running = False, current_step = ''Error: '' @ msg, progress = 0,
        total = int (length (due_clients e df0)), messages = []\<rparr>,
      events = events st @ [InitDriver]\<rparr>)"
  using assms by (simp add: run_defs Let_def handle_exception_def set_step_def call_def)

lemma run_quit_raises:
  assumes "load_config e = None" and "read_csv e p = Inr df0"
    and "to_datetime_raises e (map NextHearingDate df0) = None"
    and "load_templates e = Inr t" and "initialize_webdriver e = None" and "check_session e"
    and "driver_quit e = Some (Exception msg)"
  shows "current_step (message_status (snd (run_messaging_process e p st))) = ''Error: '' @ msg"
  using assms by (simp add: run_defs Let_def state_simps)

lemma run_returns: "fst (run_messaging_process e p st) = None"
  by (simp add: run_messaging_process_def split: prod.splits option.splits)

lemma run_handles:
  assumes "try_body e p (st\<lparr>message_status := initialize (message_status st)\<rparr>) =
      (Some (Exception msg), st')"
  shows "message_status (snd (run_messaging_process e p st)) =
      (message_status st')\<lparr>current_step := ''Error: '' @ msg, is_running := False\<rparr>"
  using assms by (simp add: run_messaging_process_def state_simps)

subsection \<open>The example run\<close>

lemma example_load_templates: "load_templates example_env = Inr example_templates"
  by (simp add: load_templates_def example_env_def example_templates_def)

lemma example_due:
  "due_clients example_env example_rows =
     [\<lparr>Client = ''A'', Contact = ''+919876543210'', NextHearingDate = Some 739930,
       Category = ''Active'', TypRnRy = ''T1'', Parties = ''A vs X''\<rparr>,
      \<lparr>Client = ''C'', Contact = ''+913333344444'', NextHearingDate = Some 739930,
       Category = ''NoClientsInstruction'', TypRnRy = ''T3'', Parties = ''C vs Z''\<rparr>]"
  by (simp add: due_clients_def example_env_def example_rows_def today_clients_def
      filtered_clients_def parse_dates_def load_contacts_def normalize_contact_def
      py_strip_def py_isspace_def today_def selected_categories_def)

lemma example_run_env:
  "load_config example_env = None" "read_csv example_env p = Inr example_rows"
  "to_datetime_raises example_env column = None"
  "initialize_webdriver example_env = None" "check_session example_env"
  "driver_quit example_env = None"
  by (simp_all add: example_env_def)

lemma offline_run_env:
  "load_config offline_env = None" "read_csv offline_env p = Inr example_rows"
  "to_datetime_raises offline_env column = None"
  "initialize_webdriver offline_env = None" "\<not> check_session offline_env"
  "load_templates offline_env = Inr example_templates"
  by (simp_all add: offline_env_def example_env_def load_templates_def example_templates_def)

lemma example_messages:
  "render_message example_env example_templates
     \<lparr>Client = ''A'', Contact = ''+919876543210'', NextHearingDate = Some 739930,
      Category = ''Active'', TypRnRy = ''T1'', Parties = ''A vs X''\<rparr> =
     ''Dear A, hearing on 2026-11-10.''"
  "render_message example_env example_templates
     \<lparr>Client = ''C'', Contact = ''+913333344444'', NextHearingDate = Some 739930,
      Category = ''NoClientsInstruction'', TypRnRy = ''T3'', Parties = ''C vs Z''\<rparr> =
     ''Dear C, instruct us on C vs Z {Ref}.''"
  by (simp_all add: render_message_def replace_placeholders_def columns_def cell_str_def
      example_templates_def example_env_def)

lemma example_entries:
  "map (entry_of example_env example_templates) (enumerate 0 (due_clients example_env example_rows)) =
     [\<lparr>client = ''A'', contact = ''+919876543210'', status = ''Success''\<rparr>,
      \<lparr>client = ''C'', contact = ''+913333344444'', status = ''Failed''\<rparr>]"
  by (simp add: example_due entry_of_def example_messages result_entry_def)
     (simp add: example_env_def)

lemma example_calls:
  "concat (map (calls_of example_env example_templates) (due_clients example_env example_rows)) =
     [SendMessage ''A'' ''+919876543210'' ''Dear A, hearing on 2026-11-10.'', Sleep 5,
      SendMessage ''C'' ''+913333344444'' ''Dear C, instruct us on C vs Z {Ref}.'', Sleep 5]"
  by (simp add: example_due calls_of_def example_messages)

lemma quit_fails_run_env:
  "load_config quit_fails_env = None" "read_csv quit_fails_env p = Inr example_rows"
  "to_datetime_raises quit_fails_env column = None"
  "initialize_webdriver quit_fails_env = None" "check_session quit_fails_env"
  "driver_quit quit_fails_env = Some (Exception ''gone'')"
  "load_templates quit_fails_env = Inr example_templates"
  by (simp_all add: quit_fails_env_def example_env_def load_templates_def example_templates_def)

lemma quit_fails_try_body:
  "try_body quit_fails_env ''uploads/a.csv''
     (example_state\<lparr>message_status := initialize (message_status example_state)\<rparr>) =
   (Some (Exception ''gone''),
    \<lparr>message_status =
       \<lparr>is_running = True, current_step = ''Sending messages...'', progress = 2, total = 2,
        messages =
          [\<lparr>client = ''A'', contact = ''+919876543210'', status = ''Success''\<rparr>,
           \<lparr>client = ''C'', contact = ''+913333344444'', status = ''Failed''\<rparr>]\<rparr>,
     events =
       [InitDriver, CheckSession,
        SendMessage ''A'' ''+919876543210'' ''Dear A, hearing on 2026-11-10.'', Sleep 5,
        SendMessage ''C'' ''+913333344444'' ''Dear C, instruct us on C vs Z {Ref}.'', Sleep 5,
        DriverQuit]\<rparr>)"
  by code_simp

lemma offline_due: "due_clients offline_env df = due_clients example_env df"
  by (simp add: due_clients_def today_def parse_dates_def offline_env_def)

lemma failing_worlds:
  "load_config config_fails_env = Some (Exception ''bad json'')"
  "load_config csv_fails_env = None"
  "read_csv csv_fails_env p = Inl (Exception ''no file'')"
  "load_config parse_fails_env = None"
  "read_csv parse_fails_env p = Inr example_rows"
  "to_datetime_raises parse_fails_env column = Some (Exception ''no .dt accessor'')"
  "load_config template_fails_env = None"
  "read_csv template_fails_env p = Inr example_rows"
  "to_datetime_raises template_fails_env column = None"
  "read_template template_fails_env f = Inl (Exception ''no template'')"
  "load_config second_template_fails_env = None"
  "read_csv second_template_fails_env p = Inr example_rows"
  "to_datetime_raises second_template_fails_env column = None"
  "read_template second_template_fails_env ''templates/active_message.txt'' =
     Inr ''Dear {Client}''"
  "read_template second_template_fails_env ''templates/no_instruction_message.txt'' =
     Inl (Exception ''no second template'')"
  "load_config driver_fails_env = None"
  "read_csv driver_fails_env p = Inr example_rows"
  "to_datetime_raises driver_fails_env column = None"
  "load_templates driver_fails_env = Inr example_templates"
  "initialize_webdriver driver_fails_env = Some (Exception ''no chrome'')"
  by (simp_all add: config_fails_env_def csv_fails_env_def parse_fails_env_def
      template_fails_env_def second_template_fails_env_def driver_fails_env_def
      example_env_def load_templates_def example_templates_def)

lemma failing_due:
  "due_clients template_fails_env df = due_clients example_env df"
  "due_clients second_template_fails_env df = due_clients example_env df"
  "due_clients driver_fails_env df = due_clients example_env df"
  "due_clients quit_fails_env df = due_clients example_env df"
  by (simp_all add: due_clients_def today_def parse_dates_def template_fails_env_def
      second_template_fails_env_def driver_fails_env_def quit_fails_env_def)

lemma quit_fails_entries:
  "map (entry_of quit_fails_env example_templates)
     (enumerate 0 (due_clients quit_fails_env example_rows)) =
     [\<lparr>client = ''A'', contact = ''+919876543210'', status = ''Success''\<rparr>,
      \<lparr>client = ''C'', contact = ''+913333344444'', status = ''Failed''\<rparr>]"
proof -
  have cell: "cell_str quit_fails_env = cell_str example_env"
    by (intro ext) (simp add: cell_str_def quit_fails_env_def split: option.splits)
  have send: "send_message quit_fails_env = send_message example_env"
    by (simp add: quit_fails_env_def)
  have "entry_of quit_fails_env example_templates = entry_of example_env example_templates"
    unfolding entry_of_def render_message_def replace_placeholders_def cell send ..
  then show ?thesis
    using example_entries by (simp add: failing_due)
qed

subsection \<open>Start requests\<close>

lemma start_accepted:
  assumes "\<not> is_running s" and "filter (\<lambda>f. endswith f ''.csv'') listdir \<noteq> []"
  shows "\<exists>csv_path. start_messaging s listdir getctime =
     (Response ''success'' ''Messaging process started'' 200, Some csv_path)"
  using assms by (simp add: start_messaging_def Let_def)


text \<open>
  C2. A start request that finds \<open>is_running\<close> set is answered with the error and
  status 400, starts no thread, and leaves the process, \<open>message_status\<close> included, as it
  was.
\<close>

theorem start_rejected_while_running:
  assumes "is_running (shared_status p)"
  shows "start_messaging (shared_status p) listdir getctime =
           (Response ''error'' ''Messaging is already in progress'' 400, None)
       \<and> post_start_messaging listdir getctime p =
           (Response ''error'' ''Messaging is already in progress'' 400, p)"
  using assms by (simp add: start_messaging_def post_start_messaging_def)

theorem start_rejected_while_running_witness:
  "is_running (shared_status running_process)
   \<and> start_messaging (shared_status running_process) example_listdir example_getctime =
       (Response ''error'' ''Messaging is already in progress'' 400, None)
   \<and> post_start_messaging example_listdir example_getctime running_process =
       (Response ''error'' ''Messaging is already in progress'' 400, running_process)"
proof -
  have running: "is_running (shared_status running_process)"
    by (simp add: running_process_def)
  from start_rejected_while_running [OF running] running show ?thesis
    by simp
qed

text \<open>
  C1. The handler tests \<open>is_running\<close> and never sets it: the flag is set by the first
  statement of the worker thread. Two start requests handled one after the other, before
  the thread of the first has run that statement, are therefore both answered with
  success, and two worker threads are started; \<open>message_status\<close> is the same before and
  after each request.
\<close>

theorem two_starts_two_workers:
  assumes "\<not> is_running (shared_status p)"
    and "filter (\<lambda>f. endswith f ''.csv'') listdir \<noteq> []"
  shows "fst (post_start_messaging listdir getctime p) =
           Response ''success'' ''Messaging process started'' 200
    \<and> shared_status (snd (post_start_messaging listdir getctime p)) = shared_status p
    \<and> fst (post_start_messaging listdir getctime (snd (post_start_messaging listdir getctime p))) =
           Response ''success'' ''Messaging process started'' 200
    \<and> length (started_workers
         (snd (post_start_messaging listdir getctime (snd (post_start_messaging listdir getctime p))))) =
       length (started_workers p) + 2"
proof -
  obtain csv_path where first: "start_messaging (shared_status p) listdir getctime =
      (Response ''success'' ''Messaging process started'' 200, Some csv_path)"
    using start_accepted [OF assms] by blast
  then show ?thesis
    by (simp add: post_start_messaging_def)
qed

theorem two_starts_two_workers_witness:
  "\<not> is_running (shared_status idle_process)
   \<and> filter (\<lambda>f. endswith f ''.csv'') example_listdir \<noteq> []
   \<and> post_start_messaging example_listdir example_getctime idle_process =
       (Response ''success'' ''Messaging process started'' 200,
        \<lparr>shared_status = initial_message_status, started_workers = [''uploads/b.csv'']\<rparr>)
   \<and> post_start_messaging example_listdir example_getctime
        \<lparr>shared_status = initial_message_status, started_workers = [''uploads/b.csv'']\<rparr> =
       (Response ''success'' ''Messaging process started'' 200,
        \<lparr>shared_status = initial_message_status,
         started_workers = [''uploads/b.csv'', ''uploads/b.csv'']\<rparr>)"
proof -
  have idle: "\<not> is_running (shared_status idle_process)"
    by (simp add: idle_process_def initial_message_status_def)
  have files: "filter (\<lambda>f. endswith f ''.csv'') example_listdir = [''a.csv'', ''b.csv'']"
    by (simp add: example_listdir_def endswith_def suffix_def)
  have listed: "filter (\<lambda>f. endswith f ''.csv'') example_listdir \<noteq> []"
    by (simp add: files)
  have started: "start_messaging initial_message_status example_listdir example_getctime =
      (Response ''success'' ''Messaging process started'' 200, Some ''uploads/b.csv'')"
    by (simp add: start_messaging_def Let_def files example_getctime_def initial_message_status_def)
  from two_starts_two_workers [OF idle listed, of example_getctime] idle listed started
  show ?thesis
    by (simp add: post_start_messaging_def idle_process_def)
qed

subsection \<open>The session check\<close>

text \<open>
  C5. When the run reaches the session check and \<open>check_session\<close> answers false, the
  worker returns with \<open>current_step\<close> "Session check failed", \<open>progress\<close> 0, no
  entry in \<open>messages\<close> and \<open>is_running\<close> false; the only calls of the run are the start
  of the browser and the check, so no message is sent to any recipient.
\<close>

theorem session_check_failed:
  assumes "load_config e = None" and "read_csv e p = Inr df0"
    and "to_datetime_raises e (map NextHearingDate df0) = None"
    and "load_templates e = Inr t" and "initialize_webdriver e = None" and "\<not> check_session e"
  shows "fst (run_messaging_process e p st) = None
    \<and> current_step (message_status (snd (run_messaging_process e p st))) = ''Session check failed''
    \<and> progress (message_status (snd (run_messaging_process e p st))) = 0
    \<and> messages (message_status (snd (run_messaging_process e p st))) = []
    \<and> \<not> is_running (message_status (snd (run_messaging_process e p st)))
    \<and> events (snd (run_messaging_process e p st)) = events st @ [InitDriver, CheckSession]"
  by (simp add: run_session_failed [OF assms])

theorem session_check_failed_witness:
  "load_config offline_env = None
   \<and> read_csv offline_env ''uploads/a.csv'' = Inr example_rows
   \<and> to_datetime_raises offline_env (map NextHearingDate example_rows) = None
   \<and> load_templates offline_env = Inr example_templates
   \<and> initialize_webdriver offline_env = None
   \<and> \<not> check_session offline_env
   \<and> fst (run_messaging_process offline_env ''uploads/a.csv'' example_state) = None
   \<and> current_step (message_status (snd (run_messaging_process offline_env ''uploads/a.csv'' example_state))) = ''Session check failed''
   \<and> progress (message_status (snd (run_messaging_process offline_env ''uploads/a.csv'' example_state))) = 0
   \<and> messages (message_status (snd (run_messaging_process offline_env ''uploads/a.csv'' example_state))) = []
   \<and> \<not> is_running (message_status (snd (run_messaging_process offline_env ''uploads/a.csv'' example_state)))
   \<and> events (snd (run_messaging_process offline_env ''uploads/a.csv'' example_state)) = [InitDriver, CheckSession]"
  using session_check_failed [where e = offline_env and p = "''uploads/a.csv''"
      and ?df0.0 = example_rows and t = example_templates and st = example_state]
  by (simp add: offline_run_env example_state_def)


subsection \<open>The sending loop of a run\<close>

text \<open>
  C3, as the code has it, for a worker that runs alone. One pass of the loop for the
  record at index \<open>i\<close> appends exactly one entry, whose status is "Success" exactly when
  \<open>send_message\<close> answered true, leaves \<open>progress\<close> at \<open>i + 1\<close>, and makes the call
  followed by the pause of 5 seconds. When the run reaches the session check and passes
  it, the entries of \<open>messages\<close> at the end are those of the due records, one each and in
  the filtered order, whatever \<open>send_message\<close> answered: their number is \<open>total\<close>, the
  entry at \<open>k\<close> belongs to the \<open>k\<close>-th due record, \<open>progress\<close> is their number, every
  call is followed by its pause, and \<open>is_running\<close> is false. \<open>current_step\<close> is
  "Completed" when \<^verbatim>\<open>driver.quit()\<close>, which stands between the loop and that write,
  returns.
\<close>

theorem sending_completes:
  assumes "load_config e = None" and "read_csv e p = Inr df0"
    and "to_datetime_raises e (map NextHearingDate df0) = None"
    and "load_templates e = Inr t" and "initialize_webdriver e = None" and "check_session e"
  shows "messages (message_status (send_one e t i r st')) =
           messages (message_status st') @ [entry_of e t (i, r)]
    \<and> (status (entry_of e t (i, r)) = ''Success'') =
           send_message e i (Client r) (Contact r) (render_message e t r)
    \<and> progress (message_status (send_one e t i r st')) = int i + 1
    \<and> events (send_one e t i r st') =
           events st' @ [SendMessage (Client r) (Contact r) (render_message e t r), Sleep 5]
    \<and> messages (message_status (snd (run_messaging_process e p st))) =
           map (entry_of e t) (enumerate 0 (due_clients e df0))
    \<and> int (length (messages (message_status (snd (run_messaging_process e p st))))) =
           total (message_status (snd (run_messaging_process e p st)))
    \<and> (k < length (due_clients e df0) \<longrightarrow>
           messages (message_status (snd (run_messaging_process e p st))) ! k =
             entry_of e t (k, due_clients e df0 ! k))
    \<and> progress (message_status (snd (run_messaging_process e p st))) =
           int (length (due_clients e df0))
    \<and> events (snd (run_messaging_process e p st)) =
           events st @ [InitDriver, CheckSession] @
           concat (map (calls_of e t) (due_clients e df0)) @ [DriverQuit]
    \<and> \<not> is_running (message_status (snd (run_messaging_process e p st)))
    \<and> (driver_quit e = None \<longrightarrow>
           current_step (message_status (snd (run_messaging_process e p st))) = ''Completed'')"
proof -
  note run = run_sending [OF assms, of st]
  have "k < length (due_clients e df0) \<longrightarrow>
      map (entry_of e t) (enumerate 0 (due_clients e df0)) ! k =
        entry_of e t (k, due_clients e df0 ! k)"
    by (simp add: nth_enumerate_eq)
  then show ?thesis
    by (simp add: run send_one_messages send_one_progress send_one_events calls_of_def
        entry_of_fields)
qed


theorem sending_completes_witness:
  "load_config example_env = None
   \<and> read_csv example_env ''uploads/a.csv'' = Inr example_rows
   \<and> to_datetime_raises example_env (map NextHearingDate example_rows) = None
   \<and> load_templates example_env = Inr example_templates
   \<and> initialize_webdriver example_env = None
   \<and> check_session example_env
   \<and> driver_quit example_env = None
   \<and> 1 < length (due_clients example_env example_rows)
   \<and> messages (message_status (snd (run_messaging_process example_env ''uploads/a.csv'' example_state))) =
       [\<lparr>client = ''A'', contact = ''+919876543210'', status = ''Success''\<rparr>,
        \<lparr>client = ''C'', contact = ''+913333344444'', status = ''Failed''\<rparr>]
   \<and> total (message_status (snd (run_messaging_process example_env ''uploads/a.csv'' example_state))) = 2
   \<and> progress (message_status (snd (run_messaging_process example_env ''uploads/a.csv'' example_state))) = 2
   \<and> events (snd (run_messaging_process example_env ''uploads/a.csv'' example_state)) =
       [InitDriver, CheckSession,
        SendMessage ''A'' ''+919876543210'' ''Dear A, hearing on 2026-11-10.'', Sleep 5,
        SendMessage ''C'' ''+913333344444'' ''Dear C, instruct us on C vs Z {Ref}.'', Sleep 5,
        DriverQuit]
   \<and> \<not> is_running (message_status (snd (run_messaging_process example_env ''uploads/a.csv'' example_state)))
   \<and> current_step (message_status (snd (run_messaging_process example_env ''uploads/a.csv'' example_state))) = ''Completed''"
proof -
  have due: "length (due_clients example_env example_rows) = 2"
    by (simp add: example_due)
  from sending_completes [where e = example_env and p = "''uploads/a.csv''"
      and ?df0.0 = example_rows and t = example_templates and st = example_state and k = 1
      and i = 0 and r = "hd (due_clients example_env example_rows)" and st' = example_state]
  show ?thesis
    by (auto simp add: example_run_env example_load_templates example_entries example_calls due
        example_state_def)
qed

text \<open>
  The session is opened and both records are handled, but \<^verbatim>\<open>driver.quit()\<close> raises: the
  run ends in the handler and \<open>current_step\<close> is not "Completed".
\<close>

theorem sending_quit_counterexample:
  "load_config quit_fails_env = None
   \<and> read_csv quit_fails_env ''uploads/a.csv'' = Inr example_rows
   \<and> to_datetime_raises quit_fails_env (map NextHearingDate example_rows) = None
   \<and> load_templates quit_fails_env = Inr example_templates
   \<and> initialize_webdriver quit_fails_env = None
   \<and> check_session quit_fails_env
   \<and> current_step (message_status
         (snd (run_messaging_process quit_fails_env ''uploads/a.csv'' example_state))) =
       ''Error: gone''
   \<and> current_step (message_status
         (snd (run_messaging_process quit_fails_env ''uploads/a.csv'' example_state))) \<noteq>
       ''Completed''"
  using run_quit_raises [where e = quit_fails_env and p = "''uploads/a.csv''"
      and ?df0.0 = example_rows and t = example_templates and msg = "''gone''"
      and st = example_state]
  by (simp add: quit_fails_run_env)

subsection \<open>Exceptions\<close>

text \<open>
  C6. No exception leaves the worker, and wherever the exception is raised the run ends
  with \<open>current_step\<close> "Error: msg", \<open>is_running\<close> false and the entries appended so far:
  \<^item> when the configuration, the recipient file or the parsing of the dates raises, with
    no entry, \<open>progress\<close> 0 and \<open>total\<close> as the run found it;
  \<^item> when the reading of either template or the start of the browser raises, with no
    entry, \<open>progress\<close> 0 and \<open>total\<close> the number of due records;
  \<^item> when \<^verbatim>\<open>driver.quit()\<close> raises after the loop, with the entries of all due records,
    in order, and \<open>progress\<close> and \<open>total\<close> their number.

  In general, when the body of the \<^verbatim>\<open>try\<close> raises in the state \<open>st'\<close>, the handler
  changes \<open>current_step\<close> and \<open>is_running\<close> and nothing else.
\<close>

theorem exception_caught:
  "fst (run_messaging_process e p st) = None
   \<and> (load_config e = Some (Exception msg) \<longrightarrow>
        snd (run_messaging_process e p st) =
          \<lparr>message_status =
             \<lparr>is_running = False, current_step = ''Error: '' @ msg, progress = 0,
              total = total (message_status st), messages = []\<rparr>,
           events = events st\<rparr>)
   \<and> (load_config e = None \<and> read_csv e p = Inl (Exception msg) \<longrightarrow>
        snd (run_messaging_process e p st) =
          \<lparr>message_status =
             \<lparr>is_running = False, current_step = ''Error: '' @ msg, progress = 0,
              total = total (message_status st), messages = []\<rparr>,
           events = events st\<rparr>)
   \<and> (load_config e = None \<and> read_csv e p = Inr df0
        \<and> to_datetime_raises e (map NextHearingDate df0) = Some (Exception msg) \<longrightarrow>
        snd (run_messaging_process e p st) =
          \<lparr>message_status =
             \<lparr>is_running = False, current_step = ''Error: '' @ msg, progress = 0,
              total = total (message_status st), messages = []\<rparr>,
           events = events st\<rparr>)
   \<and> (load_config e = None \<and> read_csv e p = Inr df0
        \<and> to_datetime_raises e (map NextHearingDate df0) = None
        \<and> read_template e ''templates/active_message.txt'' = Inl (Exception msg) \<longrightarrow>
        snd (run_messaging_process e p st) =
          \<lparr>message_status =
             \<lparr>is_running = False, current_step = ''Error: '' @ msg, progress = 0,
              total = int (length (due_clients e df0)), messages = []\<rparr>,
           events = events st\<rparr>)
   \<and> (load_config e = None \<and> read_csv e p = Inr df0
        \<and> to_datetime_raises e (map NextHearingDate df0) = None
        \<and> read_template e ''templates/active_message.txt'' = Inr active
        \<and> read_template e ''templates/no_instruction_message.txt'' = Inl (Exception msg) \<longrightarrow>
        snd (run_messaging_process e p st) =
          \<lparr>message_status =
             \<lparr>is_running = False, current_step = ''Error: '' @ msg, progress = 0,
              total = int (length (due_clients e df0)), messages = []\<rparr>,
           events = events st\<rparr>)
   \<and> (load_config e = None \<and> read_csv e p = Inr df0
        \<and> to_datetime_raises e (map NextHearingDate df0) = None
        \<and> load_templates e = Inr t \<and> initialize_webdriver e = Some (Exception msg) \<longrightarrow>
        snd (run_messaging_process e p st) =
          \<lparr>message_status =
             \<lparr>is_running = False, current_step = ''Error: '' @ msg, progress = 0,
              total = int (length (due_clients e df0)), messages = []\<rparr>,
           events = events st @ [InitDriver]\<rparr>)
   \<and> (load_config e = None \<and> read_csv e p = Inr df0
        \<and> to_datetime_raises e (map NextHearingDate df0) = None
        \<and> load_templates e = Inr t \<and> initialize_webdriver e = None \<and> check_session e
        \<and> driver_quit e = Some (Exception msg) \<longrightarrow>
        current_step (message_status (snd (run_messaging_process e p st))) = ''Error: '' @ msg
        \<and> \<not> is_running (message_status (snd (run_messaging_process e p st)))
        \<and> messages (message_status (snd (run_messaging_process e p st))) =
            map (entry_of e t) (enumerate 0 (due_clients e df0))
        \<and> progress (message_status (snd (run_messaging_process e p st))) =
            int (length (due_clients e df0))
        \<and> total (message_status (snd (run_messaging_process e p st))) =
            int (length (due_clients e df0)))
   \<and> (try_body e p (st\<lparr>message_status := initialize (message_status st)\<rparr>) =
        (Some (Exception msg), st') \<longrightarrow>
        message_status (snd (run_messaging_process e p st)) =
          (message_status st')\<lparr>current_step := ''Error: '' @ msg, is_running := False\<rparr>
        \<and> messages (message_status (snd (run_messaging_process e p st))) =
            messages (message_status st'))"
proof -
  have quit: "load_config e = None \<and> read_csv e p = Inr df0
        \<and> to_datetime_raises e (map NextHearingDate df0) = None
        \<and> load_templates e = Inr t \<and> initialize_webdriver e = None \<and> check_session e
        \<and> driver_quit e = Some (Exception msg) \<longrightarrow>
        current_step (message_status (snd (run_messaging_process e p st))) = ''Error: '' @ msg
        \<and> \<not> is_running (message_status (snd (run_messaging_process e p st)))
        \<and> messages (message_status (snd (run_messaging_process e p st))) =
            map (entry_of e t) (enumerate 0 (due_clients e df0))
        \<and> progress (message_status (snd (run_messaging_process e p st))) =
            int (length (due_clients e df0))
        \<and> total (message_status (snd (run_messaging_process e p st))) =
            int (length (due_clients e df0))"
    by (simp add: run_quit_raises run_sending)
  have handled: "try_body e p (st\<lparr>message_status := initialize (message_status st)\<rparr>) =
        (Some (Exception msg), st') \<longrightarrow>
        message_status (snd (run_messaging_process e p st)) =
          (message_status st')\<lparr>current_step := ''Error: '' @ msg, is_running := False\<rparr>
        \<and> messages (message_status (snd (run_messaging_process e p st))) =
            messages (message_status st')"
    by (simp add: run_handles)
  show ?thesis
    using quit handled
    by (simp add: run_returns run_config_raises run_csv_raises run_dates_raise
        run_template_raises run_driver_raises load_templates_raises)
qed

theorem exception_caught_witness:
  "load_config config_fails_env = Some (Exception ''bad json'')
   \<and> snd (run_messaging_process config_fails_env ''uploads/a.csv'' example_state) =
       \<lparr>message_status =
          \<lparr>is_running = False, current_step = ''Error: bad json'', progress = 0, total = 5,
           messages = []\<rparr>,
        events = []\<rparr>
   \<and> load_config csv_fails_env = None
   \<and> read_csv csv_fails_env ''uploads/a.csv'' = Inl (Exception ''no file'')
   \<and> snd (run_messaging_process csv_fails_env ''uploads/a.csv'' example_state) =
       \<lparr>message_status =
          \<lparr>is_running = False, current_step = ''Error: no file'', progress = 0, total = 5,
           messages = []\<rparr>,
        events = []\<rparr>
   \<and> load_config parse_fails_env = None
   \<and> read_csv parse_fails_env ''uploads/a.csv'' = Inr example_rows
   \<and> to_datetime_raises parse_fails_env (map NextHearingDate example_rows) =
       Some (Exception ''no .dt accessor'')
   \<and> snd (run_messaging_process parse_fails_env ''uploads/a.csv'' example_state) =
       \<lparr>message_status =
          \<lparr>is_running = False, current_step = ''Error: no .dt accessor'', progress = 0,
           total = 5, messages = []\<rparr>,
        events = []\<rparr>
   \<and> read_template template_fails_env ''templates/active_message.txt'' =
       Inl (Exception ''no template'')
   \<and> snd (run_messaging_process template_fails_env ''uploads/a.csv'' example_state) =
       \<lparr>message_status =
          \<lparr>is_running = False, current_step = ''Error: no template'', progress = 0,
           total = 2, messages = []\<rparr>,
        events = []\<rparr>
   \<and> read_template second_template_fails_env ''templates/active_message.txt'' =
       Inr ''Dear {Client}''
   \<and> read_template second_template_fails_env ''templates/no_instruction_message.txt'' =
       Inl (Exception ''no second template'')
   \<and> snd (run_messaging_process second_template_fails_env ''uploads/a.csv'' example_state) =
       \<lparr>message_status =
          \<lparr>is_running = False, current_step = ''Error: no second template'', progress = 0,
           total = 2, messages = []\<rparr>,
        events = []\<rparr>
   \<and> initialize_webdriver driver_fails_env = Some (Exception ''no chrome'')
   \<and> snd (run_messaging_process driver_fails_env ''uploads/a.csv'' example_state) =
       \<lparr>message_status =
          \<lparr>is_running = False, current_step = ''Error: no chrome'', progress = 0,
           total = 2, messages = []\<rparr>,
        events = [InitDriver]\<rparr>
   \<and> check_session quit_fails_env
   \<and> driver_quit quit_fails_env = Some (Exception ''gone'')
   \<and> try_body quit_fails_env ''uploads/a.csv''
        (example_state\<lparr>message_status := initialize (message_status example_state)\<rparr>) =
      (Some (Exception ''gone''),
       \<lparr>message_status =
          \<lparr>is_running = True, current_step = ''Sending messages...'', progress = 2, total = 2,
           messages =
             [\<lparr>client = ''A'', contact = ''+919876543210'', status = ''Success''\<rparr>,
              \<lparr>client = ''C'', contact = ''+913333344444'', status = ''Failed''\<rparr>]\<rparr>,
        events =
          [InitDriver, CheckSession,
           SendMessage ''A'' ''+919876543210'' ''Dear A, hearing on 2026-11-10.'', Sleep 5,
           SendMessage ''C'' ''+913333344444'' ''Dear C, instruct us on C vs Z {Ref}.'', Sleep 5,
           DriverQuit]\<rparr>)
   \<and> fst (run_messaging_process quit_fails_env ''uploads/a.csv'' example_state) = None
   \<and> message_status (snd (run_messaging_process quit_fails_env ''uploads/a.csv'' example_state)) =
       \<lparr>is_running = False, current_step = ''Error: gone'', progress = 2, total = 2,
        messages =
          [\<lparr>client = ''A'', contact = ''+919876543210'', status = ''Success''\<rparr>,
           \<lparr>client = ''C'', contact = ''+913333344444'', status = ''Failed''\<rparr>]\<rparr>"
proof -
  have previous: "total (message_status example_state) = 5" "events example_state = []"
    by (simp_all add: example_state_def previous_status_def)
  have due: "length (due_clients example_env example_rows) = 2"
    by (simp add: example_due)
  note config = exception_caught [where e = config_fails_env and p = "''uploads/a.csv''"
      and st = example_state and msg = "''bad json''" and ?df0.0 = example_rows
      and t = example_templates and st' = example_state and active = "''Dear {Client}''"]
  note csv = exception_caught [where e = csv_fails_env and p = "''uploads/a.csv''"
      and st = example_state and msg = "''no file''" and ?df0.0 = example_rows
      and t = example_templates and st' = example_state and active = "''Dear {Client}''"]
  note dates = exception_caught [where e = parse_fails_env and p = "''uploads/a.csv''"
      and st = example_state and msg = "''no .dt accessor''" and ?df0.0 = example_rows
      and t = example_templates and st' = example_state and active = "''Dear {Client}''"]
  note template = exception_caught [where e = template_fails_env and p = "''uploads/a.csv''"
      and st = example_state and msg = "''no template''" and ?df0.0 = example_rows
      and t = example_templates and st' = example_state and active = "''Dear {Client}''"]
  note second = exception_caught [where e = second_template_fails_env
      and p = "''uploads/a.csv''" and st = example_state and msg = "''no second template''"
      and ?df0.0 = example_rows and t = example_templates and st' = example_state
      and active = "''Dear {Client}''"]
  note driver = exception_caught [where e = driver_fails_env and p = "''uploads/a.csv''"
      and st = example_state and msg = "''no chrome''" and ?df0.0 = example_rows
      and t = example_templates and st' = example_state and active = "''Dear {Client}''"]
  note quit = exception_caught [where e = quit_fails_env and p = "''uploads/a.csv''"
      and st = example_state and msg = "''gone''" and ?df0.0 = example_rows
      and t = example_templates and active = "''Dear {Client}''"
      and st' = "\<lparr>message_status =
          \<lparr>is_running = True, current_step = ''Sending messages...'', progress = 2, total = 2,
           messages =
             [\<lparr>client = ''A'', contact = ''+919876543210'', status = ''Success''\<rparr>,
              \<lparr>client = ''C'', contact = ''+913333344444'', status = ''Failed''\<rparr>]\<rparr>,
        events =
          [InitDriver, CheckSession,
           SendMessage ''A'' ''+919876543210'' ''Dear A, hearing on 2026-11-10.'', Sleep 5,
           SendMessage ''C'' ''+913333344444'' ''Dear C, instruct us on C vs Z {Ref}.'', Sleep 5,
           DriverQuit]\<rparr>"]
  show ?thesis
    using config csv dates template second driver quit quit_fails_try_body
    by (simp add: failing_worlds quit_fails_run_env failing_due due previous)
qed

subsection \<open>Progress and the number of entries\<close>

text \<open>
  C10. Two workers that the handler started one after the other write the same
  \<^verbatim>\<open>message_status\<close>. When they take turns in the loop, each pass of either worker sets
  \<open>progress\<close> to its own index plus one and appends its own entry: after both workers
  have handled the two due records, \<open>progress\<close> is 2 and \<open>messages\<close> has 4 entries. (For
  a worker that runs alone the two agree in the state every run ends with, as
  \<open>run_progress\<close> shows.)
\<close>

theorem two_workers_progress:
  "progress (message_status two_workers_end) = 2
   \<and> length (messages (message_status two_workers_end)) = 4
   \<and> progress (message_status two_workers_end) \<noteq>
       int (length (messages (message_status two_workers_end)))"
  by (simp add: two_workers_end_def two_workers_start_def send_one_progress send_one_messages)

subsection \<open>Loading and selection\<close>

text \<open>
  C8, as the code has it. The stored contact is the source contact with every space
  character removed and then the whitespace at its two ends stripped; it holds no space,
  and "+91 98765 43210" is stored as "+919876543210". Whitespace other than the space
  that stands inside the value is kept.
\<close>

theorem contact_normalized:
  "normalize_contact c = py_strip (filter (\<lambda>ch. ch \<noteq> CHR '' '') c)
   \<and> CHR '' '' \<notin> set (normalize_contact c)
   \<and> map Contact (load_contacts df) = map (\<lambda>r. normalize_contact (Contact r)) df
   \<and> normalize_contact ''+91 98765 43210'' = ''+919876543210''"
proof -
  have eq: "normalize_contact c = py_strip (filter (\<lambda>ch. ch \<noteq> CHR '' '') c)" for c
    by (simp add: normalize_contact_def py_replace_char)
  have "set (py_strip s) \<subseteq> set s" for s
    unfolding py_strip_def
    by (metis set_rev set_dropWhileD subsetI)
  then have "CHR '' '' \<notin> set (normalize_contact c)"
    unfolding eq by fastforce
  moreover have "normalize_contact ''+91 98765 43210'' = ''+919876543210''"
    by (simp add: eq py_strip_def py_isspace_def)
  ultimately show ?thesis
    by (simp add: eq load_contacts_def)
qed

theorem contact_whitespace_counterexample:
  "normalize_contact tab_contact \<noteq> filter (\<lambda>ch. \<not> py_isspace ch) tab_contact"
  by (simp add: tab_contact_def normalize_contact_def py_strip_def py_isspace_def)

text \<open>
  C4. The due records are exactly the records whose category is "Active" or
  "NoClientsInstruction" and whose date is the reference date, in the order of the input;
  a record whose date was not parsed is never among them; the reference date is the
  current date plus 6 days, and the worker computes the due records once, from the rows
  as read: they are the rows selected by category and parsed date.
\<close>

theorem due_selection:
  "today_clients ref clients =
     filter (\<lambda>r. (Category r = ''Active'' \<or> Category r = ''NoClientsInstruction'')
                  \<and> NextHearingDate r = Some ref) clients
   \<and> subseq (today_clients ref clients) clients
   \<and> (NextHearingDate r = None \<longrightarrow> r \<notin> set (today_clients ref clients))
   \<and> today e = now_date e + 6
   \<and> due_clients e df0 = today_clients (today e) (parse_dates e (load_contacts df0))
   \<and> due_clients e df0 =
       parse_dates e (load_contacts
         (filter (\<lambda>r. (Category r = ''Active'' \<or> Category r = ''NoClientsInstruction'')
                      \<and> to_datetime e (NextHearingDate r) = Some (now_date e + 6)) df0))"
proof -
  have "subseq (today_clients ref clients) clients"
    by (simp add: today_clients_filter)
  moreover have "NextHearingDate r = None \<longrightarrow> r \<notin> set (today_clients ref clients)"
    by (simp add: today_clients_filter)
  ultimately show ?thesis
    using today_clients_filter [of ref clients] due_clients_source [of e df0]
    by (simp add: today_def due_clients_def)
qed

theorem due_selection_witness:
  "NextHearingDate unread_row = None
   \<and> unread_row \<in> set (parse_dates example_env (load_contacts example_rows))
   \<and> unread_row \<notin> set (today_clients (today example_env)
         (parse_dates example_env (load_contacts example_rows)))
   \<and> today example_env = 739930
   \<and> due_clients example_env example_rows =
       [\<lparr>Client = ''A'', Contact = ''+919876543210'', NextHearingDate = Some 739930,
         Category = ''Active'', TypRnRy = ''T1'', Parties = ''A vs X''\<rparr>,
        \<lparr>Client = ''C'', Contact = ''+913333344444'', NextHearingDate = Some 739930,
         Category = ''NoClientsInstruction'', TypRnRy = ''T3'', Parties = ''C vs Z''\<rparr>]"
proof -
  have unread: "NextHearingDate unread_row = None"
    by (simp add: unread_row_def)
  have member: "unread_row \<in> set (parse_dates example_env (load_contacts example_rows))"
    by (simp add: unread_row_def parse_dates_def load_contacts_def example_rows_def
        example_env_def normalize_contact_def py_strip_def py_isspace_def)
  have day: "today example_env = 739930"
    by (simp add: today_def example_env_def)
  from due_selection [of "today example_env"
      "parse_dates example_env (load_contacts example_rows)" unread_row example_env example_rows]
    unread member day example_due
  show ?thesis
    by simp
qed

subsection \<open>Initialization\<close>

text \<open>
  C9, as the code has it. Lines 226 to 229 write \<open>is_running\<close>, \<open>current_step\<close>,
  \<open>progress\<close> and \<open>messages\<close> and leave \<open>total\<close> as it was; \<open>total\<close> is written only
  on line 260, with the number of due records, which a run reaches when its
  configuration is loaded, its recipient file is read and line 255 has parsed the dates
  without raising.
\<close>

theorem initialization_writes:
  "initialize s =
     \<lparr>is_running = True, current_step = ''Initializing...'', progress = 0, total = total s,
      messages = []\<rparr>
   \<and> (load_config e = None \<and> read_csv e p = Inr df0
        \<and> to_datetime_raises e (map NextHearingDate df0) = None \<longrightarrow>
        total (message_status (snd (run_messaging_process e p st))) =
          int (length (due_clients e df0)))"
  by (simp add: run_total initialize_def)

theorem stale_total_counterexample:
  "total (initialize previous_status) = total previous_status
   \<and> total (initialize previous_status) \<noteq> 0"
  by (simp add: initialize_def previous_status_def)

theorem initialization_writes_witness:
  "initialize previous_status =
     \<lparr>is_running = True, current_step = ''Initializing...'', progress = 0, total = 5,
      messages = []\<rparr>
   \<and> load_config example_env = None
   \<and> read_csv example_env ''uploads/a.csv'' = Inr example_rows
   \<and> to_datetime_raises example_env (map NextHearingDate example_rows) = None
   \<and> total (message_status (snd (run_messaging_process example_env ''uploads/a.csv'' example_state))) = 2"
  using initialization_writes [of previous_status example_env "''uploads/a.csv''" example_rows example_state]
  by (simp add: example_run_env example_due) (simp add: previous_status_def)

subsection \<open>Rendering\<close>

text \<open>
  C7, as the code has it. For a template made of literal text without an opening brace
  and of placeholders whose names have no brace, and a record none of whose six cells
  holds an opening brace, the rendered message is the template with every placeholder of
  a column replaced by the cell of that column, and every other placeholder and all the
  literal text as they stand.
\<close>

theorem render_pieces:
  assumes "list_all well_formed ps"
    and "list_all (\<lambda>col. CHR ''{'' \<notin> set (cell_str e r col)) columns"
  shows "replace_placeholders e (template_text ps) r = concat (map (substitute e r) ps)"
proof -
  have "replace_placeholders e (template_text ps) r =
      template_text (foldl (\<lambda>qs col. map (fill col (cell_str e r col)) qs) ps columns)"
    unfolding replace_placeholders_loop
    using assms columns_no_brace by (intro replace_columns) (auto simp: list_all_iff)
  also have "\<dots> = concat (map (substitute e r) ps)"
    by (simp add: fill_all template_text_def filled_text comp_def)
  finally show ?thesis .
qed


theorem render_pieces_witness:
  "list_all well_formed example_pieces
   \<and> list_all (\<lambda>col. CHR ''{'' \<notin> set (cell_str example_env waiting_row col)) columns
   \<and> template_text example_pieces = ''Dear {Client}, instruct us on {Parties} {Ref}.''
   \<and> replace_placeholders example_env ''Dear {Client}, instruct us on {Parties} {Ref}.'' waiting_row =
       ''Dear C, instruct us on C vs Z {Ref}.''"
proof -
  have wf: "list_all well_formed example_pieces"
    by (simp add: example_pieces_def)
  have vals: "list_all (\<lambda>col. CHR ''{'' \<notin> set (cell_str example_env waiting_row col)) columns"
    by (simp add: columns_def cell_str_def waiting_row_def example_env_def)
  have shape: "template_text example_pieces = ''Dear {Client}, instruct us on {Parties} {Ref}.''"
    by (simp add: example_pieces_def template_text_def)
  have "concat (map (substitute example_env waiting_row) example_pieces) =
      ''Dear C, instruct us on C vs Z {Ref}.''"
    by (simp add: example_pieces_def columns_def cell_str_def waiting_row_def)
  with render_pieces [OF wf vals] wf vals shape show ?thesis
    by simp
qed

text \<open>
  The six replacements are made one after the other on the whole message, so a cell
  that holds a placeholder, or a cell that completes one with the text around it, is
  replaced again by a later column.
\<close>

theorem render_nested_counterexample:
  "replace_placeholders example_env (template_text [Placeholder ''Client'']) nested_row \<noteq>
     concat (map (substitute example_env nested_row) [Placeholder ''Client''])
   \<and> replace_placeholders example_env ''{Client}'' nested_row = ''+911''
   \<and> replace_placeholders example_env
       (template_text [Literal ''{Par'', Placeholder ''TypRnRy'', Literal ''ies}'']) nested_row \<noteq>
     concat (map (substitute example_env nested_row)
       [Literal ''{Par'', Placeholder ''TypRnRy'', Literal ''ies}''])
   \<and> replace_placeholders example_env ''{Par{TypRnRy}ies}'' nested_row = ''P''"
  by (simp add: replace_placeholders_def template_text_def columns_def cell_str_def
      nested_row_def)

end
